theory Spec2Isabelle
  imports Main "HOL-Library.Word"
begin

section \<open>Values, errors and the standard library\<close>

text \<open>
  A Go \<^verbatim>\<open>interface{}\<close> value as the webhook channel builds it: \<^verbatim>\<open>nil\<close>, booleans,
  integers, the \<^verbatim>\<open>float64\<close> that \<^verbatim>\<open>json.Unmarshal\<close> produces for a number (carried as
  its bit pattern, never computed on), strings, slices and \<^verbatim>\<open>map[string]interface{}\<close>.
  A Go map is a partial function: it has neither an order nor duplicate keys.
\<close>

datatype any = VNil | VBool bool | VInt int | VFloat64 "64 word" | VStr string
  | VList "any list" | VMap "string \<rightharpoonup> any"

text \<open>\<^verbatim>\<open>m[k]\<close> on a \<^verbatim>\<open>map[string]interface{}\<close>: the zero value \<^verbatim>\<open>nil\<close> when the key is absent.\<close>

definition index :: "(string \<rightharpoonup> any) \<Rightarrow> string \<Rightarrow> any" where
  "index m k = (case m k of None \<Rightarrow> VNil | Some v \<Rightarrow> v)"

text \<open>
  A Go \<^verbatim>\<open>error\<close> made by \<^verbatim>\<open>fmt.Errorf\<close> is its message. A run-time panic (the nil pointer
  dereference of \<^verbatim>\<open>buildCustomPayload\<close> without a custom payload) is kept apart: it is not
  a returned error and no caller wraps it.
\<close>

datatype go_error = Errorf string | Panic string

fun Error :: "go_error \<Rightarrow> string" where
  "Error (Errorf s) = s"
| "Error (Panic s) = s"

text \<open>
  What the file takes from the Go standard library and from its surroundings, as parameters:
  the environment, the clock (read once in \<^verbatim>\<open>buildPayload\<close> and once more in
  \<^verbatim>\<open>buildSlackFormat\<close>), the Unicode case mappings, the \<^verbatim>\<open>%s\<close> verb of \<^verbatim>\<open>fmt.Sprintf\<close>,
  \<^verbatim>\<open>text/template\<close> with the \<^verbatim>\<open>jsonEscape\<close> function installed (a parse error, if any, and
  the rendering of a template text on a data map), \<^verbatim>\<open>encoding/json\<close> and standard base64.
\<close>

record stdlib =
  Getenv :: "string \<Rightarrow> string"
  Now_RFC3339 :: string
  Now_Unix :: int
  ToUpper :: "string \<Rightarrow> string"
  ToLower :: "string \<Rightarrow> string"
  Sprintf_s :: "any \<Rightarrow> string"
  template_Parse :: "string \<Rightarrow> go_error option"
  template_Execute :: "string \<Rightarrow> (string \<rightharpoonup> any) \<Rightarrow> go_error + string"
  json_Unmarshal :: "string \<Rightarrow> any option"
  json_Marshal :: "any \<Rightarrow> go_error + string"
  base64_EncodeToString :: "string \<Rightarrow> string"

text \<open>\<^verbatim>\<open>strings.Contains\<close>: a byte-wise substring test; the empty string is everywhere.\<close>

fun HasPrefix :: "string \<Rightarrow> string \<Rightarrow> bool" where
  "HasPrefix s [] = True"
| "HasPrefix [] (c # cs) = False"
| "HasPrefix (x # xs) (c # cs) = (x = c \<and> HasPrefix xs cs)"

fun Contains :: "string \<Rightarrow> string \<Rightarrow> bool" where
  "Contains [] substr = (substr = [])"
| "Contains (x # xs) substr = (HasPrefix (x # xs) substr \<or> Contains xs substr)"

section \<open>Configuration\<close>

text \<open>
  The two configuration structs, with the fields and the types \<^verbatim>\<open>webhook.go\<close> and its test
  use them at. \<^verbatim>\<open>Template\<close> and \<^verbatim>\<open>ContentType\<close> of the custom payload are renamed, since a
  field name is a constant here. \<^verbatim>\<open>Fields\<close> is a \<^verbatim>\<open>map[string]string\<close> that may be \<^verbatim>\<open>nil\<close>
  and is only ever ranged over. \<^verbatim>\<open>Headers\<close> is a \<^verbatim>\<open>map[string]string\<close> too, kept as a
  reference into the store of string maps below: \<^verbatim>\<open>Send\<close> writes into a headers map.
\<close>

type_synonym addr = nat

record CustomPayloadConfig =
  PayloadTemplate :: string
  PayloadContentType :: string
  Fields :: "(string \<rightharpoonup> string) option"
  TitleField :: string
  MessageField :: string
  IncludeTitle :: bool
  IncludeMessage :: bool

record WebhookConfig =
  URL :: string
  Method :: string
  Headers :: "addr option"
  AuthType :: string
  AuthToken :: string
  AuthUsername :: string
  AuthPassword :: string
  AuthHeader :: string
  CustomPayload :: "CustomPayloadConfig option"
  Template :: string
  Format :: string
  ContentType :: string
  Retries :: int
  Timeout :: int
  SkipTLSVerify :: bool

text \<open>The notifier holds its configuration; the pointer is taken not to be \<^verbatim>\<open>nil\<close>.\<close>

record WebhookNotifier =
  config :: WebhookConfig

definition NewWebhookNotifier :: "WebhookConfig \<Rightarrow> WebhookNotifier" where
  "NewWebhookNotifier c = \<lparr>config = c\<rparr>"

text \<open>
  The store of \<^verbatim>\<open>map[string]string\<close> objects: an address is an index, \<^verbatim>\<open>make\<close> appends an
  empty map, an assignment \<^verbatim>\<open>m[k] = v\<close> updates the map at its address.
\<close>

type_synonym heap = "(string \<rightharpoonup> string) list"

definition make_map :: "heap \<Rightarrow> addr \<times> heap" where
  "make_map h = (length h, h @ [Map.empty])"

definition map_assign :: "addr \<Rightarrow> string \<Rightarrow> string \<Rightarrow> heap \<Rightarrow> heap" where
  "map_assign a k v h = h[a := (h ! a)(k \<mapsto> v)]"

text \<open>
  \<^verbatim>\<open>for key, value := range src { dst[key] = value }\<close>: every key of the source is written
  once, so the order of the iteration does not show; ranging over \<^verbatim>\<open>nil\<close> does nothing.
\<close>

definition range_copy :: "addr option \<Rightarrow> addr \<Rightarrow> heap \<Rightarrow> heap" where
  "range_copy src dst h =
     (case src of None \<Rightarrow> h | Some s \<Rightarrow> h[dst := (h ! dst) ++ (h ! s)])"

text \<open>The configuration refers to a map that exists.\<close>

definition wf_heap :: "WebhookNotifier \<Rightarrow> heap \<Rightarrow> bool" where
  "wf_heap w h = (case Headers (config w) of None \<Rightarrow> True | Some a \<Rightarrow> a < length h)"

section \<open>Building the payload\<close>

definition buildTemplatePayloadWithData ::
  "stdlib \<Rightarrow> string \<Rightarrow> (string \<rightharpoonup> any) \<Rightarrow> string \<Rightarrow> go_error + (any \<times> string)" where
  "buildTemplatePayloadWithData L templateStr data contentType =
     (case template_Parse L templateStr of
        Some err \<Rightarrow> Inl (Errorf (''failed to parse template: '' @ Error err))
      | None \<Rightarrow>
          (case template_Execute L templateStr data of
             Inl err \<Rightarrow> Inl (Errorf (''failed to execute template: '' @ Error err))
           | Inr buf \<Rightarrow>
               (case json_Unmarshal L buf of
                  Some jsonData \<Rightarrow>
                    Inr (jsonData,
                         if contentType \<noteq> '''' then contentType else ''application/json'')
                | None \<Rightarrow>
                    Inr (VStr buf,
                         if contentType \<noteq> '''' then contentType else ''text/plain''))))"

definition buildTemplatePayload ::
  "stdlib \<Rightarrow> WebhookNotifier \<Rightarrow> (string \<rightharpoonup> any) \<Rightarrow> go_error + (any \<times> string)" where
  "buildTemplatePayload L w data =
     (case template_Parse L (Template (config w)) of
        Some err \<Rightarrow> Inl (Errorf (''failed to parse template: '' @ Error err))
      | None \<Rightarrow>
          (case template_Execute L (Template (config w)) data of
             Inl err \<Rightarrow> Inl (Errorf (''failed to execute template: '' @ Error err))
           | Inr buf \<Rightarrow>
               (case json_Unmarshal L buf of
                  Some jsonData \<Rightarrow> Inr (jsonData, ''application/json'')
                | None \<Rightarrow>
                    Inr (VStr buf,
                         if ContentType (config w) \<noteq> '''' then ContentType (config w)
                         else ''text/plain''))))"

text \<open>The keys the structured branch of \<^verbatim>\<open>buildCustomPayload\<close> never copies by name.\<close>

definition reserved_key :: "string \<Rightarrow> bool" where
  "reserved_key key =
     (\<not> (key \<noteq> ''Title'' \<and> key \<noteq> ''Message'' \<and> key \<noteq> ''title'' \<and> key \<noteq> ''message'' \<and>
         key \<noteq> ''timestamp'' \<and> key \<noteq> ''service'' \<and> key \<noteq> ''environment''))"

text \<open>\<^verbatim>\<open>fmt.Sprintf(`"%s"`, key)\<close> on a string key.\<close>

definition quoted :: "string \<Rightarrow> string" where
  "quoted key = CHR 0x22 # key @ [CHR 0x22]"

text \<open>The data map with the configured fields and the field-name mappings added.\<close>

definition enhance :: "CustomPayloadConfig \<Rightarrow> (string \<rightharpoonup> any) \<Rightarrow> (string \<rightharpoonup> any)" where
  "enhance customPayload data =
     (let e0 = data;
          e1 = (case Fields customPayload of
                  None \<Rightarrow> e0
                | Some fs \<Rightarrow> e0 ++ (\<lambda>key. map_option VStr (fs key)));
          e2 = (if TitleField customPayload \<noteq> '''' \<and> IncludeTitle customPayload
                then e1(TitleField customPayload \<mapsto> index data ''title'') else e1);
          e3 = (if MessageField customPayload \<noteq> '''' \<and> IncludeMessage customPayload
                then e2(MessageField customPayload \<mapsto> index data ''message'') else e2)
      in e3)"

text \<open>
  The structured result for a template that mentions \<^verbatim>\<open>"alert"\<close> and \<^verbatim>\<open>"details"\<close>. The
  last loop ranges over the enhanced data and writes \<^verbatim>\<open>result[key]\<close> for the key at hand
  only, so its outcome is the same in every order.
\<close>

definition structured_result :: "string \<Rightarrow> (string \<rightharpoonup> any) \<Rightarrow> (string \<rightharpoonup> any)" where
  \<open>structured_result tmpl enhancedData =
     (let r0 = [''alert'' \<mapsto> index enhancedData ''Title'',
                ''details'' \<mapsto> index enhancedData ''Message''];
          r1 = (if Contains tmpl ''"env"''
                then r0(''env'' \<mapsto> index enhancedData ''environment'') else r0);
          r2 = (if Contains tmpl ''"svc"''
                then r1(''svc'' \<mapsto> index enhancedData ''service'') else r1)
      in (\<lambda>key. case enhancedData key of
                   None \<Rightarrow> r2 key
                 | Some v \<Rightarrow>
                     if \<not> reserved_key key \<and> Contains tmpl (quoted key) then Some v
                     else r2 key))\<close>

definition buildCustomPayload ::
  "stdlib \<Rightarrow> WebhookNotifier \<Rightarrow> (string \<rightharpoonup> any) \<Rightarrow> go_error + (any \<times> string)" where
  \<open>buildCustomPayload L w data =
     (case CustomPayload (config w) of
        None \<Rightarrow> Inl (Panic ''invalid memory address or nil pointer dereference'')
      | Some customPayload \<Rightarrow>
          (let enhancedData = enhance customPayload data;
               tmpl = PayloadTemplate customPayload
           in if tmpl \<noteq> '''' then
                (if Contains tmpl ''"alert"'' \<and> Contains tmpl ''"details"'' then
                   Inr (VMap (structured_result tmpl enhancedData),
                        if PayloadContentType customPayload \<noteq> ''''
                        then PayloadContentType customPayload else ''application/json'')
                 else buildTemplatePayloadWithData L tmpl enhancedData
                        (PayloadContentType customPayload))
              else
                Inr (VMap enhancedData,
                     if PayloadContentType customPayload \<noteq> ''''
                     then PayloadContentType customPayload else ''application/json'')))\<close>

definition buildSlackFormat :: "stdlib \<Rightarrow> (string \<rightharpoonup> any) \<Rightarrow> (string \<rightharpoonup> any)" where
  "buildSlackFormat L data =
     [''text'' \<mapsto> VStr (''*'' @ Sprintf_s L (index data ''title'') @ ''*''),
      ''attachments'' \<mapsto> VList [VMap
         [''color'' \<mapsto> VStr ''danger'',
          ''text'' \<mapsto> index data ''message'',
          ''timestamp'' \<mapsto> VInt (Now_Unix L),
          ''fields'' \<mapsto> VList [VMap
             [''title'' \<mapsto> VStr ''Service'',
              ''value'' \<mapsto> index data ''service'',
              ''short'' \<mapsto> VBool True]]]]]"

definition buildDiscordFormat :: "(string \<rightharpoonup> any) \<Rightarrow> (string \<rightharpoonup> any)" where
  "buildDiscordFormat data =
     [''embeds'' \<mapsto> VList [VMap
         [''title'' \<mapsto> index data ''title'',
          ''description'' \<mapsto> index data ''message'',
          ''color'' \<mapsto> VInt 0xFF0000,
          ''timestamp'' \<mapsto> index data ''timestamp'',
          ''fields'' \<mapsto> VList [VMap
             [''name'' \<mapsto> VStr ''Service'',
              ''value'' \<mapsto> index data ''service'',
              ''inline'' \<mapsto> VBool True]]]]]"

definition buildTeamsFormat :: "(string \<rightharpoonup> any) \<Rightarrow> (string \<rightharpoonup> any)" where
  "buildTeamsFormat data =
     [''@type'' \<mapsto> VStr ''MessageCard'',
      ''@context'' \<mapsto> VStr ''http://schema.org/extensions'',
      ''themeColor'' \<mapsto> VStr ''FF0000'',
      ''summary'' \<mapsto> index data ''title'',
      ''sections'' \<mapsto> VList [VMap
         [''activityTitle'' \<mapsto> index data ''title'',
          ''activityText'' \<mapsto> index data ''message'',
          ''facts'' \<mapsto> VList
             [VMap [''name'' \<mapsto> VStr ''Service'', ''value'' \<mapsto> index data ''service''],
              VMap [''name'' \<mapsto> VStr ''Timestamp'',
                    ''value'' \<mapsto> index data ''timestamp'']]]]]"

definition buildMattermostFormat :: "stdlib \<Rightarrow> (string \<rightharpoonup> any) \<Rightarrow> (string \<rightharpoonup> any)" where
  "buildMattermostFormat L data =
     [''text'' \<mapsto> VStr (''## '' @ Sprintf_s L (index data ''title'') @ [CHR 0x0A, CHR 0x0A]
         @ Sprintf_s L (index data ''message'') @ [CHR 0x0A, CHR 0x0A]
         @ ''**Service:** '' @ Sprintf_s L (index data ''service'') @ [CHR 0x0A]
         @ ''**Time:** '' @ Sprintf_s L (index data ''timestamp''))]"

definition buildFormattedPayload ::
  "stdlib \<Rightarrow> WebhookNotifier \<Rightarrow> (string \<rightharpoonup> any) \<Rightarrow> go_error + (any \<times> string)" where
  "buildFormattedPayload L w data =
     (let f = ToLower L (Format (config w)) in
      if f = ''slack'' then Inr (VMap (buildSlackFormat L data), ''application/json'')
      else if f = ''discord'' then Inr (VMap (buildDiscordFormat data), ''application/json'')
      else if f = ''teams'' then Inr (VMap (buildTeamsFormat data), ''application/json'')
      else if f = ''mattermost'' then
        Inr (VMap (buildMattermostFormat L data), ''application/json'')
      else Inr (VMap data, ''application/json''))"

text \<open>The data map \<^verbatim>\<open>buildPayload\<close> starts from: six keys.\<close>

definition payload_data :: "stdlib \<Rightarrow> string \<Rightarrow> string \<Rightarrow> (string \<rightharpoonup> any)" where
  "payload_data L title message =
     [''title'' \<mapsto> VStr title,
      ''message'' \<mapsto> VStr message,
      ''Title'' \<mapsto> VStr title,
      ''Message'' \<mapsto> VStr message,
      ''timestamp'' \<mapsto> VStr (Now_RFC3339 L),
      ''service'' \<mapsto> VStr ''ponghub'']"

definition buildPayload ::
  "stdlib \<Rightarrow> WebhookNotifier \<Rightarrow> string \<Rightarrow> string \<Rightarrow> go_error + (any \<times> string)" where
  "buildPayload L w title message =
     (let data = payload_data L title message in
      if CustomPayload (config w) \<noteq> None then buildCustomPayload L w data
      else if Template (config w) \<noteq> '''' then buildTemplatePayload L w data
      else if Format (config w) \<noteq> '''' then buildFormattedPayload L w data
      else Inr (VMap data, ''application/json''))"

section \<open>Authentication and sending\<close>

definition base64Encode :: "stdlib \<Rightarrow> string \<Rightarrow> string" where
  "base64Encode L s = base64_EncodeToString L s"

definition setAuthentication :: "stdlib \<Rightarrow> WebhookNotifier \<Rightarrow> addr \<Rightarrow> heap \<Rightarrow> heap" where
  "setAuthentication L w headers h =
     (let c = config w; t = ToLower L (AuthType c) in
      if t = ''bearer'' then
        (if AuthToken c \<noteq> ''''
         then map_assign headers ''Authorization'' (''Bearer '' @ AuthToken c) h else h)
      else if t = ''basic'' then
        (if AuthUsername c \<noteq> '''' \<and> AuthPassword c \<noteq> ''''
         then map_assign headers ''Authorization''
                (''Basic '' @ base64Encode L (AuthUsername c @ '':'' @ AuthPassword c)) h
         else h)
      else if t = ''apikey'' then
        (if AuthToken c \<noteq> '''' then
           (if AuthHeader c \<noteq> '''' then map_assign headers (AuthHeader c) (AuthToken c) h
            else map_assign headers ''X-API-Key'' (AuthToken c) h)
         else h)
      else h)"

text \<open>
  The arguments \<^verbatim>\<open>sendWithRetry\<close> hands to \<^verbatim>\<open>sendHTTPRequestWithCustomBody\<close>, a function of
  the package that is not in this file: it is the parameter \<open>H\<close> of \<open>sendWithRetry\<close> and of
  \<open>Send\<close>. The body is the content of the reader, \<open>None\<close> for a nil reader.
\<close>

record http_call =
  call_url :: string
  call_method :: string
  call_body :: "string option"
  call_contentType :: string
  call_headers :: "string \<rightharpoonup> string"
  call_maxRetries :: int
  call_timeout :: int
  call_skipTLSVerify :: bool

definition sendWithRetry ::
  "stdlib \<Rightarrow> (http_call \<Rightarrow> 'r) \<Rightarrow> WebhookNotifier \<Rightarrow> string \<Rightarrow> string \<Rightarrow> any \<Rightarrow> string \<Rightarrow>
   (string \<rightharpoonup> string) \<Rightarrow> go_error + 'r" where
  "sendWithRetry L H w url method payload contentType headers =
     (let maxRetries = (if Retries (config w) > 0 then Retries (config w) else 0);
          timeout = (if Timeout (config w) > 0 then Timeout (config w) else 30);
          call = (\<lambda>body. \<lparr>call_url = url, call_method = method, call_body = body,
                    call_contentType = contentType, call_headers = headers,
                    call_maxRetries = maxRetries, call_timeout = timeout,
                    call_skipTLSVerify = SkipTLSVerify (config w)\<rparr>)
      in case payload of
           VNil \<Rightarrow> Inr (H (call None))
         | VStr v \<Rightarrow> Inr (H (call (Some v)))
         | _ \<Rightarrow>
             (case json_Marshal L payload of
                Inl err \<Rightarrow> Inl (Errorf (''failed to marshal payload: '' @ Error err))
              | Inr jsonData \<Rightarrow> Inr (H (call (Some jsonData)))))"

text \<open>
  \<^verbatim>\<open>Send\<close>, passing the notifier and the store through: the result, the notifier and the
  store after the call.
\<close>

definition Send ::
  "stdlib \<Rightarrow> (http_call \<Rightarrow> 'r) \<Rightarrow> WebhookNotifier \<Rightarrow> heap \<Rightarrow> string \<Rightarrow> string \<Rightarrow>
   (go_error + 'r) \<times> WebhookNotifier \<times> heap" where
  "Send L H w h title message =
     (let url = (if URL (config w) = '''' then Getenv L ''WEBHOOK_URL'' else URL (config w)) in
      if url = '''' then (Inl (Errorf ''webhook URL not configured''), w, h)
      else
        (case buildPayload L w title message of
           Inl (Panic p) \<Rightarrow> (Inl (Panic p), w, h)
         | Inl (Errorf e) \<Rightarrow>
             (Inl (Errorf (''failed to build webhook payload: '' @ e)), w, h)
         | Inr (payload, contentType) \<Rightarrow>
             (let method = (if Method (config w) \<noteq> '''' then ToUpper L (Method (config w))
                            else ''POST'');
                  (headers, h1) = make_map h;
                  h2 = range_copy (Headers (config w)) headers h1;
                  h3 = (if AuthType (config w) \<noteq> '''' then setAuthentication L w headers h2
                        else h2)
              in (sendWithRetry L H w url method payload contentType (h3 ! headers), w, h3))))"

text \<open>
  The call \<^verbatim>\<open>Send\<close> makes: \<open>Send\<close> with the identity in the place of the helper returns
  the arguments of the call, or the error \<^verbatim>\<open>Send\<close> returns before it gets there.
\<close>

definition Send_call ::
  "stdlib \<Rightarrow> WebhookNotifier \<Rightarrow> heap \<Rightarrow> string \<Rightarrow> string \<Rightarrow> go_error + http_call" where
  "Send_call L w h title message = fst (Send L (\<lambda>c. c) w h title message)"

section \<open>The HTTP helper\<close>

text \<open>The error type declared at the end of \<^verbatim>\<open>webhook.go\<close>.\<close>

record WebhookError =
  StatusCode :: int
  Body :: string
  Retryable :: bool
  Message :: string

text \<open>
  Modelled from the spec: \<^verbatim>\<open>sendHTTPRequestWithCustomBody\<close>, the function of the package
  that \<^verbatim>\<open>sendWithRetry\<close> ends in, is not in the file, and nothing in the file makes a
  \<^verbatim>\<open>WebhookError\<close>. The specification says of the send path: issue the HTTP request; a
  2xx response is success; otherwise retry up to the configured retry count, with no
  change of the payload between attempts; when the retries are used up, give the last
  status and body as a \<^verbatim>\<open>WebhookError\<close> that says whether the class of the failure was
  retryable. The specification names neither the classification nor the text of the
  error, so both are parameters, with the endpoint: the response to the \<open>i\<close>-th attempt
  at a request. A request that gets no HTTP response is not part of that sentence, nor
  of this model.
\<close>

record http_response =
  resp_status :: int
  resp_body :: string

record endpoint =
  respond :: "nat \<Rightarrow> http_call \<Rightarrow> http_response"
  retryable_class :: "int \<Rightarrow> bool"
  describe :: "http_response \<Rightarrow> string"

text \<open>Modelled from the spec: the class of success, 2xx.\<close>

definition is_2xx :: "http_response \<Rightarrow> bool" where
  "is_2xx r = (200 \<le> resp_status r \<and> resp_status r < 300)"

text \<open>
  Modelled from the spec: the error for a response, with its status, its body and the
  retryability of its class.
\<close>

definition webhook_error :: "endpoint \<Rightarrow> http_response \<Rightarrow> WebhookError" where
  "webhook_error E r =
     \<lparr>StatusCode = resp_status r, Body = resp_body r,
      Retryable = retryable_class E (resp_status r), Message = describe E r\<rparr>"

text \<open>
  Modelled from the spec: the retry loop of \<^verbatim>\<open>sendHTTPRequestWithCustomBody\<close>, from
  attempt \<open>i\<close> with \<open>n\<close> retries left. It returns the error, if any, and the requests it
  sent, in order.
\<close>

fun attempt ::
  "endpoint \<Rightarrow> http_call \<Rightarrow> nat \<Rightarrow> nat \<Rightarrow> WebhookError option \<times> http_call list" where
  "attempt E c i 0 =
     (if is_2xx (respond E i c) then (None, [c])
      else (Some (webhook_error E (respond E i c)), [c]))"
| "attempt E c i (Suc n) =
     (if is_2xx (respond E i c) then (None, [c])
      else (case attempt E c (Suc i) n of (err, sent) \<Rightarrow> (err, c # sent)))"

text \<open>
  Modelled from the spec: \<^verbatim>\<open>sendHTTPRequestWithCustomBody\<close> itself, the loop from the first
  attempt with the retry count of the call.
\<close>

definition sendHTTPRequestWithCustomBody ::
  "endpoint \<Rightarrow> http_call \<Rightarrow> WebhookError option \<times> http_call list" where
  "sendHTTPRequestWithCustomBody E c = attempt E c 0 (nat (call_maxRetries c))"

section \<open>A library instance and configurations for the examples\<close>

text \<open>
  An instance of the library for the examples, exact on what they use and no further: ASCII
  case mapping, \<^verbatim>\<open>%s\<close> on strings and \<^verbatim>\<open>nil\<close>, templates without actions (which render to
  themselves), the JSON literals \<^verbatim>\<open>null\<close>, \<^verbatim>\<open>true\<close> and \<^verbatim>\<open>false\<close>, and the encoding of
  those literals, of strings that need no escape and of objects of them over the keys
  listed (in the byte order \<^verbatim>\<open>json.Marshal\<close> sorts keys in).
\<close>

definition is_lower :: "char \<Rightarrow> bool" where
  "is_lower c = (97 \<le> (of_char c :: nat) \<and> (of_char c :: nat) \<le> 122)"

definition is_upper :: "char \<Rightarrow> bool" where
  "is_upper c = (65 \<le> (of_char c :: nat) \<and> (of_char c :: nat) \<le> 90)"

fun with_bit5 :: "bool \<Rightarrow> char \<Rightarrow> char" where
  "with_bit5 b (Char b0 b1 b2 b3 b4 b5 b6 b7) = Char b0 b1 b2 b3 b4 b b6 b7"

definition ascii_upper :: "string \<Rightarrow> string" where
  "ascii_upper s = map (\<lambda>c. if is_lower c then with_bit5 False c else c) s"

definition ascii_lower :: "string \<Rightarrow> string" where
  "ascii_lower s = map (\<lambda>c. if is_upper c then with_bit5 True c else c) s"

fun example_Sprintf_s :: "any \<Rightarrow> string" where
  "example_Sprintf_s (VStr s) = s"
| "example_Sprintf_s v = ''%!s(<nil>)''"

fun example_Unmarshal :: "string \<Rightarrow> any option" where
  "example_Unmarshal s =
     (if s = ''null'' then Some VNil
      else if s = ''true'' then Some (VBool True)
      else if s = ''false'' then Some (VBool False)
      else None)"

definition example_keys :: "string list" where
  "example_keys = [''Message'', ''Title'', ''alert'', ''details'', ''env'', ''message'',
     ''region'', ''service'', ''svc'', ''timestamp'', ''title'']"

fun marshal_scalar :: "any \<Rightarrow> string option" where
  "marshal_scalar VNil = Some ''null''"
| "marshal_scalar (VBool b) = Some (if b then ''true'' else ''false'')"
| "marshal_scalar (VStr s) = Some (quoted s)"
| "marshal_scalar v = None"

fun marshal_members :: "string list \<Rightarrow> (string \<rightharpoonup> any) \<Rightarrow> string list option" where
  "marshal_members [] m = Some []"
| "marshal_members (k # ks) m =
     (case m k of
        None \<Rightarrow> marshal_members ks m
      | Some v \<Rightarrow>
          (case marshal_scalar v of
             None \<Rightarrow> None
           | Some s \<Rightarrow> map_option ((#) (quoted k @ '':'' @ s)) (marshal_members ks m)))"

fun join :: "string list \<Rightarrow> string" where
  "join [] = []"
| "join [s] = s"
| "join (s # t # ss) = s @ '','' @ join (t # ss)"

fun example_Marshal :: "any \<Rightarrow> go_error + string" where
  "example_Marshal (VMap m) =
     (case marshal_members example_keys m of
        None \<Rightarrow> Inl (Errorf ''json: unsupported value'')
      | Some ms \<Rightarrow> Inr (''{'' @ join ms @ ''}''))"
| "example_Marshal v =
     (case marshal_scalar v of
        None \<Rightarrow> Inl (Errorf ''json: unsupported value'')
      | Some s \<Rightarrow> Inr s)"

definition lib0 :: stdlib where
  "lib0 = \<lparr>Getenv = (\<lambda>name. ''''),
           Now_RFC3339 = ''2025-10-12T10:00:00Z'',
           Now_Unix = 1760263200,
           ToUpper = ascii_upper,
           ToLower = ascii_lower,
           Sprintf_s = example_Sprintf_s,
           template_Parse = (\<lambda>t. None),
           template_Execute = (\<lambda>t data. Inr t),
           json_Unmarshal = example_Unmarshal,
           json_Marshal = example_Marshal,
           base64_EncodeToString = (\<lambda>s. s)\<rparr>"

definition cfg0 :: WebhookConfig where
  "cfg0 = \<lparr>URL = ''http://hooks.example/alert'', Method = '''', Headers = None,
           AuthType = '''', AuthToken = '''', AuthUsername = '''', AuthPassword = '''',
           AuthHeader = '''', CustomPayload = None, Template = '''', Format = '''',
           ContentType = '''', Retries = 0, Timeout = 0, SkipTLSVerify = False\<rparr>"

definition alert_template :: string where
  \<open>alert_template = ''{"alert":"{{.Title}}","details":"{{.Message}}"}''\<close>

definition cp0 :: CustomPayloadConfig where
  "cp0 = \<lparr>PayloadTemplate = alert_template, PayloadContentType = '''', Fields = None,
          TitleField = '''', MessageField = '''', IncludeTitle = False,
          IncludeMessage = False\<rparr>"

definition ex_all_three :: WebhookNotifier where
  "ex_all_three = NewWebhookNotifier
     (cfg0\<lparr>CustomPayload := Some (cp0\<lparr>PayloadTemplate := ''custom down''\<rparr>),
           Template := ''raw down'', Format := ''discord''\<rparr>)"

definition ex_template_and_format :: WebhookNotifier where
  "ex_template_and_format =
     NewWebhookNotifier (cfg0\<lparr>Template := ''raw down'', Format := ''discord''\<rparr>)"

definition ex_format :: WebhookNotifier where
  "ex_format = NewWebhookNotifier (cfg0\<lparr>Format := ''Mattermost''\<rparr>)"

definition ex_default :: WebhookNotifier where
  "ex_default = NewWebhookNotifier cfg0"

definition ex_raw_text :: WebhookNotifier where
  "ex_raw_text = NewWebhookNotifier (cfg0\<lparr>Template := ''service is down''\<rparr>)"

definition ex_raw_text_typed :: WebhookNotifier where
  "ex_raw_text_typed = NewWebhookNotifier
     (cfg0\<lparr>Template := ''service is down'', ContentType := ''text/markdown''\<rparr>)"

definition ex_raw_json :: WebhookNotifier where
  "ex_raw_json =
     NewWebhookNotifier (cfg0\<lparr>Template := ''true'', ContentType := ''text/markdown''\<rparr>)"

definition ex_alert :: WebhookNotifier where
  "ex_alert = NewWebhookNotifier (cfg0\<lparr>CustomPayload := Some cp0\<rparr>)"

definition ex_region :: WebhookNotifier where
  "ex_region = NewWebhookNotifier
     (cfg0\<lparr>CustomPayload := Some (cp0\<lparr>Fields := Some [''region'' \<mapsto> ''eu'']\<rparr>)\<rparr>)"

definition ex_region_no_template :: WebhookNotifier where
  "ex_region_no_template = NewWebhookNotifier
     (cfg0\<lparr>CustomPayload :=
        Some (cp0\<lparr>PayloadTemplate := '''', Fields := Some [''region'' \<mapsto> ''eu'']\<rparr>)\<rparr>)"

definition ex_region_text :: WebhookNotifier where
  "ex_region_text = NewWebhookNotifier
     (cfg0\<lparr>CustomPayload :=
        Some (cp0\<lparr>PayloadTemplate := ''custom down'',
                  Fields := Some [''region'' \<mapsto> ''eu'']\<rparr>)\<rparr>)"

definition region_body :: string where
  \<open>region_body = ''{"Message":"DB failed","Title":"Service Down","message":"DB failed",'' @
     ''"region":"eu","service":"ponghub","timestamp":"2025-10-12T10:00:00Z",'' @
     ''"title":"Service Down"}''\<close>

definition ex_get :: WebhookNotifier where
  "ex_get = NewWebhookNotifier (cfg0\<lparr>Method := ''get''\<rparr>)"

definition ex_bearer :: WebhookNotifier where
  "ex_bearer = NewWebhookNotifier
     (cfg0\<lparr>Headers := Some 0, AuthType := ''bearer'', AuthToken := ''test-token-123''\<rparr>)"

definition heap0 :: heap where
  "heap0 = [[''X-Source'' \<mapsto> ''ponghub'', ''Authorization'' \<mapsto> ''none'']]"

definition ex_no_url :: WebhookNotifier where
  "ex_no_url = NewWebhookNotifier (cfg0\<lparr>URL := ''''\<rparr>)"

definition lib_env :: stdlib where
  "lib_env = lib0\<lparr>Getenv :=
     (\<lambda>name. if name = ''WEBHOOK_URL'' then ''http://env.example/hook'' else '''')\<rparr>"

definition ex_retries :: WebhookNotifier where
  "ex_retries = NewWebhookNotifier (cfg0\<lparr>Method := ''POST'', Retries := 3, Timeout := 5\<rparr>)"

text \<open>The calls these configurations lead to.\<close>

definition default_body :: string where
  \<open>default_body = ''{"Message":"DB failed","Title":"Service Down","message":"DB failed",'' @
     ''"service":"ponghub","timestamp":"2025-10-12T10:00:00Z","title":"Service Down"}''\<close>

definition default_call :: http_call where
  "default_call =
     \<lparr>call_url = ''http://hooks.example/alert'', call_method = ''POST'',
      call_body = Some default_body, call_contentType = ''application/json'',
      call_headers = Map.empty, call_maxRetries = 0, call_timeout = 30,
      call_skipTLSVerify = False\<rparr>"

definition bearer_call :: http_call where
  "bearer_call = default_call\<lparr>call_headers :=
     [''X-Source'' \<mapsto> ''ponghub'', ''Authorization'' \<mapsto> ''Bearer test-token-123'']\<rparr>"

definition env_call :: http_call where
  "env_call = default_call\<lparr>call_url := ''http://env.example/hook''\<rparr>"

definition retries_call :: http_call where
  "retries_call = default_call\<lparr>call_maxRetries := 3, call_timeout := 5\<rparr>"

text \<open>
  Two endpoints: one answers 503 twice and then 200, the other answers 500 every time.
\<close>

definition flaky :: endpoint where
  "flaky = \<lparr>respond = (\<lambda>i c. if i < 2 then \<lparr>resp_status = 503, resp_body = ''busy''\<rparr>
                                else \<lparr>resp_status = 200, resp_body = ''OK''\<rparr>),
            retryable_class = (\<lambda>s. 500 \<le> s),
            describe = (\<lambda>r. ''webhook request failed'')\<rparr>"

definition broken :: endpoint where
  "broken = \<lparr>respond = (\<lambda>i c. \<lparr>resp_status = 500, resp_body = ''Internal Server Error''\<rparr>),
             retryable_class = (\<lambda>s. 500 \<le> s),
             describe = (\<lambda>r. ''webhook request failed'')\<rparr>"

lemmas ex_defs = ex_all_three_def ex_template_and_format_def ex_format_def ex_default_def
  NewWebhookNotifier_def cfg0_def cp0_def lib0_def

lemmas ex2_defs = ex_raw_text_def ex_raw_text_typed_def ex_raw_json_def ex_alert_def
  ex_region_def ex_region_no_template_def ex_region_text_def

lemmas ex3_defs = ex_get_def ex_bearer_def heap0_def ex_no_url_def lib_env_def

section \<open>Facts about the store, the call and the examples\<close>

lemma length_range_copy [simp]: "length (range_copy src dst h) = length h"
  by (simp add: range_copy_def split: option.splits)

lemma nth_range_copy_other: "a \<noteq> dst \<Longrightarrow> range_copy src dst h ! a = h ! a"
  by (simp add: range_copy_def split: option.splits)

lemma length_map_assign [simp]: "length (map_assign a k v h) = length h"
  by (simp add: map_assign_def)

lemma nth_map_assign_other: "b \<noteq> a \<Longrightarrow> map_assign a k v h ! b = h ! b"
  by (simp add: map_assign_def)

lemma nth_map_assign_same: "a < length h \<Longrightarrow> map_assign a k v h ! a = (h ! a)(k \<mapsto> v)"
  by (simp add: map_assign_def)

lemma length_setAuthentication [simp]: "length (setAuthentication L w a h) = length h"
  by (simp add: setAuthentication_def Let_def)

lemma nth_setAuthentication_other: "b \<noteq> a \<Longrightarrow> setAuthentication L w a h ! b = h ! b"
  by (simp add: setAuthentication_def Let_def nth_map_assign_other)

lemma setAuthentication_bearer:
  "ToLower L (AuthType (config w)) = ''bearer'' \<Longrightarrow> AuthToken (config w) \<noteq> '''' \<Longrightarrow>
   setAuthentication L w a h =
     map_assign a ''Authorization'' (''Bearer '' @ AuthToken (config w)) h"
  by (simp add: setAuthentication_def Let_def)

text \<open>
  Whatever the helper is, \<open>Send\<close> applies it to the call that \<open>Send_call\<close> names, and
  returns its own errors without applying it.
\<close>

lemma sendWithRetry_factor:
  "sendWithRetry L H w url method payload ct hdrs =
     map_sum (\<lambda>e. e) H (sendWithRetry L (\<lambda>c. c) w url method payload ct hdrs)"
  by (simp add: sendWithRetry_def Let_def split: any.splits sum.splits)

lemma Send_factor:
  "fst (Send L H w h title message) = map_sum (\<lambda>e. e) H (Send_call L w h title message)"
  unfolding Send_call_def Send_def Let_def
  by (simp add: sendWithRetry_factor [of L H] split: sum.splits go_error.splits prod.splits)

lemma sendWithRetry_Inr:
  assumes "sendWithRetry L (\<lambda>c. c) w url method payload ct hdrs = Inr c"
  shows "call_url c = url" and "call_method c = method" and "call_contentType c = ct"
    and "call_headers c = hdrs"
    and "call_maxRetries c = (if Retries (config w) > 0 then Retries (config w) else 0)"
  using assms
  by (auto simp: sendWithRetry_def Let_def split: any.splits sum.splits)

lemma sendWithRetry_object_body:
  assumes "sendWithRetry L (\<lambda>c. c) w url method (VMap m) ct hdrs = Inr c"
  shows "\<exists>b. call_body c = Some b \<and> json_Marshal L (VMap m) = Inr b"
  using assms
  by (auto simp: sendWithRetry_def Let_def split: sum.splits)

lemma Send_call_Inr:
  assumes "Send_call L w h title message = Inr c"
  obtains payload ct where
    "buildPayload L w title message = Inr (payload, ct)"
    and "sendWithRetry L (\<lambda>c. c) w
           (if URL (config w) = '''' then Getenv L ''WEBHOOK_URL'' else URL (config w))
           (if Method (config w) \<noteq> '''' then ToUpper L (Method (config w)) else ''POST'')
           payload ct
           ((if AuthType (config w) \<noteq> ''''
             then setAuthentication L w (length h)
                    (range_copy (Headers (config w)) (length h) (h @ [Map.empty]))
             else range_copy (Headers (config w)) (length h) (h @ [Map.empty])) ! length h)
         = Inr c"
  using assms unfolding Send_call_def Send_def Let_def make_map_def
  by (auto split: if_splits sum.splits go_error.splits prod.splits)

lemma Send_call_url:
  assumes "Send_call L w h title message = Inr c"
  shows "call_url c =
           (if URL (config w) = '''' then Getenv L ''WEBHOOK_URL'' else URL (config w))"
  using assms by (rule Send_call_Inr) (rule sendWithRetry_Inr)

lemma Send_call_method:
  assumes "Send_call L w h title message = Inr c"
  shows "call_method c =
           (if Method (config w) \<noteq> '''' then ToUpper L (Method (config w)) else ''POST'')"
  using assms by (rule Send_call_Inr) (rule sendWithRetry_Inr)

lemma Send_call_headers:
  assumes "Send_call L w h title message = Inr c"
  shows "call_headers c =
           (if AuthType (config w) \<noteq> ''''
            then setAuthentication L w (length h)
                   (range_copy (Headers (config w)) (length h) (h @ [Map.empty]))
            else range_copy (Headers (config w)) (length h) (h @ [Map.empty])) ! length h"
  using assms by (rule Send_call_Inr) (rule sendWithRetry_Inr)

lemma Send_call_maxRetries:
  assumes "Send_call L w h title message = Inr c"
  shows "call_maxRetries c = (if Retries (config w) > 0 then Retries (config w) else 0)"
  using assms by (rule Send_call_Inr) (rule sendWithRetry_Inr)

lemma Send_call_object:
  assumes "Send_call L w h title message = Inr c"
    and "buildPayload L w title message = Inr (VMap m, ct)"
  shows "\<exists>b. call_body c = Some b \<and> json_Marshal L (VMap m) = Inr b"
    and "call_contentType c = ct"
proof -
  from assms(1) obtain payload ct' url meth hdrs
    where "buildPayload L w title message = Inr (payload, ct')"
      and sent: "sendWithRetry L (\<lambda>c. c) w url meth payload ct' hdrs = Inr c"
    by (rule Send_call_Inr)
  with assms(2) have "payload = VMap m" and "ct' = ct"
    by simp_all
  with sent show "\<exists>b. call_body c = Some b \<and> json_Marshal L (VMap m) = Inr b"
    and "call_contentType c = ct"
    by (simp_all add: sendWithRetry_object_body sendWithRetry_Inr(3))
qed

text \<open>
  When the URL is there, the payload is built and it can be encoded, \<open>Send\<close> makes a call,
  and hands it to the helper.
\<close>

lemma sendWithRetry_issues:
  assumes "payload = VNil \<or> (\<exists>v. payload = VStr v) \<or> (\<exists>b. json_Marshal L payload = Inr b)"
  shows "\<exists>c. sendWithRetry L (\<lambda>c. c) w url meth payload ct hdrs = Inr c"
  using assms
  by (cases payload) (auto simp: sendWithRetry_def Let_def)

lemma Send_call_issues:
  assumes "(if URL (config w) = '''' then Getenv L ''WEBHOOK_URL'' else URL (config w)) \<noteq> ''''"
    and "buildPayload L w title message = Inr (payload, ct)"
    and "payload = VNil \<or> (\<exists>v. payload = VStr v) \<or> (\<exists>b. json_Marshal L payload = Inr b)"
  shows "\<exists>c. Send_call L w h title message = Inr c"
  using assms(1,2) sendWithRetry_issues [OF assms(3), of w]
  unfolding Send_call_def Send_def Let_def make_map_def
  by (simp split: prod.splits)

lemma Send_issues:
  assumes "Send_call L w h title message = Inr c"
  shows "fst (Send L H w h title message) = Inr (H c)"
  using assms by (simp add: Send_factor [of L H])

text \<open>After \<open>Send\<close>: the notifier is the one given, and the store is the old one, or the
  old one with the new headers map at its end.\<close>

lemma Send_state:
  "fst (snd (Send L H w h title message)) = w \<and>
   (snd (snd (Send L H w h title message)) = h \<or>
    snd (snd (Send L H w h title message)) =
      (if AuthType (config w) \<noteq> ''''
       then setAuthentication L w (length h)
              (range_copy (Headers (config w)) (length h) (h @ [Map.empty]))
       else range_copy (Headers (config w)) (length h) (h @ [Map.empty])))"
  by (simp add: Send_def Let_def make_map_def split: sum.splits go_error.splits prod.splits)

lemma buildPayload_custom:
  "CustomPayload (config w) = Some cp \<Longrightarrow>
   buildPayload L w title message = buildCustomPayload L w (payload_data L title message)"
  by (simp add: buildPayload_def Let_def)

lemma buildPayload_default:
  "CustomPayload (config w) = None \<Longrightarrow> Template (config w) = '''' \<Longrightarrow>
   Format (config w) = '''' \<Longrightarrow>
   buildPayload L w title message =
     Inr (VMap (payload_data L title message), ''application/json'')"
  by (simp add: buildPayload_def Let_def)

lemma Contains_alert_template:
  \<open>Contains alert_template ''"alert"''\<close> \<open>Contains alert_template ''"details"''\<close>
  \<open>\<not> Contains alert_template ''"env"''\<close> \<open>\<not> Contains alert_template ''"svc"''\<close>
  by (simp_all add: alert_template_def)

lemma enhance_plain:
  "Fields cp = None \<Longrightarrow> TitleField cp = '''' \<Longrightarrow> MessageField cp = '''' \<Longrightarrow>
   enhance cp data = data"
  by (simp add: enhance_def)

lemma enhance_field:
  assumes "Fields cp = Some fs" and "fs k = Some v"
    and "\<not> (TitleField cp = k \<and> IncludeTitle cp)"
    and "\<not> (MessageField cp = k \<and> IncludeMessage cp)"
  shows "enhance cp data k = Some (VStr v)"
  using assms by (auto simp: enhance_def Let_def map_add_def)

lemma enhance_region:
  "enhance (cp0\<lparr>Fields := Some [''region'' \<mapsto> ''eu'']\<rparr>) (payload_data L title message) =
     (payload_data L title message)(''region'' \<mapsto> VStr ''eu'')"
  by (rule ext) (simp add: enhance_def cp0_def map_add_def)

lemma enhance_region_no_template:
  "enhance (cp0\<lparr>PayloadTemplate := '''', Fields := Some [''region'' \<mapsto> ''eu'']\<rparr>)
     (payload_data L title message) =
     (payload_data L title message)(''region'' \<mapsto> VStr ''eu'')"
  by (rule ext) (simp add: enhance_def cp0_def map_add_def)

lemma structured_result_payload_data:
  "structured_result alert_template (payload_data L title message) =
     [''alert'' \<mapsto> VStr title, ''details'' \<mapsto> VStr message]"
  by (rule ext) (simp add: structured_result_def Contains_alert_template payload_data_def
        index_def reserved_key_def Let_def)

lemma structured_result_region:
  "structured_result alert_template
     ((payload_data L title message)(''region'' \<mapsto> VStr ''eu'')) =
     [''alert'' \<mapsto> VStr title, ''details'' \<mapsto> VStr message]"
  by (rule ext)
     (simp add: structured_result_def Contains_alert_template payload_data_def
        index_def reserved_key_def Let_def, simp add: alert_template_def quoted_def)

text \<open>The retry loop: success at attempt \<open>k\<close>, and failure of every attempt.\<close>

lemma attempt_success:
  "k \<le> n \<Longrightarrow> (\<forall>i<k. \<not> is_2xx (respond E (j + i) c)) \<Longrightarrow> is_2xx (respond E (j + k) c) \<Longrightarrow>
   attempt E c j n = (None, replicate (Suc k) c)"
proof (induction n arbitrary: j k)
  case 0
  then show ?case by simp
next
  case (Suc n)
  show ?case
  proof (cases k)
    case 0
    with Suc.prems show ?thesis by simp
  next
    case (Suc k')
    with Suc.prems have first: "\<not> is_2xx (respond E j c)"
      by (metis add.right_neutral zero_less_Suc)
    from Suc.prems Suc have "k' \<le> n"
      and "\<forall>i<k'. \<not> is_2xx (respond E (Suc j + i) c)"
      and "is_2xx (respond E (Suc j + k') c)"
      by auto
    then have "attempt E c (Suc j) n = (None, replicate (Suc k') c)"
      by (rule Suc.IH)
    with first Suc show ?thesis
      by simp
  qed
qed

lemma attempt_exhausted:
  "(\<forall>i\<le>n. \<not> is_2xx (respond E (j + i) c)) \<Longrightarrow>
   attempt E c j n = (Some (webhook_error E (respond E (j + n) c)), replicate (Suc n) c)"
proof (induction n arbitrary: j)
  case 0
  then show ?case by simp
next
  case (Suc n)
  then have first: "\<not> is_2xx (respond E j c)"
    by (metis add.right_neutral le0)
  from Suc.prems have "\<forall>i\<le>n. \<not> is_2xx (respond E (Suc j + i) c)"
    by auto
  then have "attempt E c (Suc j) n =
      (Some (webhook_error E (respond E (Suc j + n) c)), replicate (Suc n) c)"
    by (rule Suc.IH)
  with first show ?case
    by simp
qed

text \<open>The examples, run.\<close>

lemma Send_call_default:
  "Send_call lib0 ex_default [] ''Service Down'' ''DB failed'' = Inr default_call"
  by (simp add: Send_call_def Send_def buildPayload_def payload_data_def ex_defs
      make_map_def range_copy_def sendWithRetry_def example_keys_def quoted_def Let_def
      default_call_def default_body_def)

lemma Send_call_get:
  "Send_call lib0 ex_get [] ''Service Down'' ''DB failed'' =
     Inr (default_call\<lparr>call_method := ''GET''\<rparr>)"
  by (simp add: Send_call_def Send_def buildPayload_def payload_data_def ex_defs ex3_defs
      make_map_def range_copy_def sendWithRetry_def example_keys_def quoted_def Let_def
      ascii_upper_def is_lower_def default_call_def default_body_def)

lemma Send_bearer:
  "Send lib0 (\<lambda>c. c) ex_bearer heap0 ''Service Down'' ''DB failed'' =
     (Inr bearer_call, ex_bearer, heap0 @ [call_headers bearer_call])"
  by (simp add: Send_def buildPayload_def payload_data_def ex_defs ex3_defs
      make_map_def range_copy_def sendWithRetry_def example_keys_def quoted_def Let_def
      setAuthentication_def map_assign_def ascii_lower_def is_upper_def
      bearer_call_def default_call_def default_body_def fun_eq_iff map_add_def)

lemma Send_call_bearer:
  "Send_call lib0 ex_bearer heap0 ''Service Down'' ''DB failed'' = Inr bearer_call"
  by (simp add: Send_call_def Send_bearer)

lemma Send_call_env:
  "Send_call lib_env ex_no_url [] ''Service Down'' ''DB failed'' = Inr env_call"
  by (simp add: Send_call_def Send_def buildPayload_def payload_data_def ex_defs ex3_defs
      make_map_def range_copy_def sendWithRetry_def example_keys_def quoted_def Let_def
      env_call_def default_call_def default_body_def)

lemma Send_call_retries:
  "Send_call lib0 ex_retries [] ''Service Down'' ''DB failed'' = Inr retries_call"
  by (simp add: Send_call_def Send_def buildPayload_def payload_data_def ex_defs
      ex_retries_def retries_call_def ascii_upper_def is_lower_def
      make_map_def range_copy_def sendWithRetry_def example_keys_def quoted_def Let_def
      default_call_def default_body_def)

section \<open>The precedence of the payload builders\<close>

text \<open>
  Claim C1. For every configuration, title and message, \<open>buildPayload\<close> chooses by a fixed
  precedence: a custom payload configuration, when present, decides, whatever else is
  configured; without one a non-empty raw template decides; without either a non-empty
  format name decides; and with none of the three the result is the default JSON object.
\<close>

theorem buildPayload_precedence:
  "(CustomPayload (config w) \<noteq> None \<longrightarrow>
      buildPayload L w title message =
        buildCustomPayload L w (payload_data L title message)) \<and>
   (CustomPayload (config w) = None \<and> Template (config w) \<noteq> '''' \<longrightarrow>
      buildPayload L w title message =
        buildTemplatePayload L w (payload_data L title message)) \<and>
   (CustomPayload (config w) = None \<and> Template (config w) = '''' \<and>
    Format (config w) \<noteq> '''' \<longrightarrow>
      buildPayload L w title message =
        buildFormattedPayload L w (payload_data L title message)) \<and>
   (CustomPayload (config w) = None \<and> Template (config w) = '''' \<and>
    Format (config w) = '''' \<longrightarrow>
      buildPayload L w title message =
        Inr (VMap (payload_data L title message), ''application/json''))"
  by (simp add: buildPayload_def Let_def)

text \<open>
  The four cases at work: all three configured, a raw template and a format, a format
  alone, and nothing.
\<close>

theorem buildPayload_precedence_witness:
  "buildPayload lib0 ex_all_three ''Service Down'' ''DB failed'' =
     Inr (VStr ''custom down'', ''text/plain'') \<and>
   buildPayload lib0 ex_template_and_format ''Service Down'' ''DB failed'' =
     Inr (VStr ''raw down'', ''text/plain'') \<and>
   buildPayload lib0 ex_format ''Service Down'' ''DB failed'' =
     Inr (VMap [''text'' \<mapsto> VStr (''## Service Down'' @ [CHR 0x0A, CHR 0x0A] @ ''DB failed''
                  @ [CHR 0x0A, CHR 0x0A] @ ''**Service:** ponghub'' @ [CHR 0x0A]
                  @ ''**Time:** 2025-10-12T10:00:00Z'')], ''application/json'') \<and>
   buildPayload lib0 ex_default ''Service Down'' ''DB failed'' =
     Inr (VMap (payload_data lib0 ''Service Down'' ''DB failed''), ''application/json'')"
  using buildPayload_precedence [of ex_all_three lib0 "''Service Down''" "''DB failed''"]
        buildPayload_precedence [of ex_template_and_format lib0 "''Service Down''" "''DB failed''"]
        buildPayload_precedence [of ex_format lib0 "''Service Down''" "''DB failed''"]
        buildPayload_precedence [of ex_default lib0 "''Service Down''" "''DB failed''"]
  by (simp add: ex_defs buildCustomPayload_def buildTemplatePayload_def
      buildTemplatePayloadWithData_def buildFormattedPayload_def buildMattermostFormat_def
      payload_data_def index_def enhance_def ascii_lower_def is_upper_def Let_def)

section \<open>The custom template of the specification\<close>

text \<open>
  Claim C2. With a custom payload that consists of the template
  \<^verbatim>\<open>{"alert":"{{.Title}}","details":"{{.Message}}"}\<close> (no extra fields, no field-name
  mapping), the title \<^verbatim>\<open>Service Down\<close> and the message \<^verbatim>\<open>DB failed\<close>, the payload built is
  exactly the object with the two keys \<^verbatim>\<open>alert\<close> and \<^verbatim>\<open>details\<close>, and the body of the call
  that \<open>Send\<close> makes is the JSON encoding of that object.
\<close>

theorem custom_template_example:
  assumes "CustomPayload (config w) = Some cp" and "PayloadTemplate cp = alert_template"
    and "Fields cp = None" and "TitleField cp = ''''" and "MessageField cp = ''''"
  shows "buildPayload L w ''Service Down'' ''DB failed'' =
           Inr (VMap [''alert'' \<mapsto> VStr ''Service Down'', ''details'' \<mapsto> VStr ''DB failed''],
                if PayloadContentType cp \<noteq> '''' then PayloadContentType cp
                else ''application/json'') \<and>
         (\<forall>c. Send_call L w h ''Service Down'' ''DB failed'' = Inr c \<longrightarrow>
            (\<exists>b. call_body c = Some b \<and>
                 json_Marshal L (VMap [''alert'' \<mapsto> VStr ''Service Down'',
                                       ''details'' \<mapsto> VStr ''DB failed'']) = Inr b))"
proof -
  have "alert_template \<noteq> ''''"
    by (simp add: alert_template_def)
  with assms have built: "buildPayload L w ''Service Down'' ''DB failed'' =
      Inr (VMap [''alert'' \<mapsto> VStr ''Service Down'', ''details'' \<mapsto> VStr ''DB failed''],
           if PayloadContentType cp \<noteq> '''' then PayloadContentType cp
           else ''application/json'')"
    by (simp add: buildPayload_custom buildCustomPayload_def enhance_plain
        Contains_alert_template structured_result_payload_data)
  then show ?thesis
    by (blast dest: Send_call_object(1))
qed

theorem custom_template_example_witness:
  \<open>buildPayload lib0 ex_alert ''Service Down'' ''DB failed'' =
     Inr (VMap [''alert'' \<mapsto> VStr ''Service Down'', ''details'' \<mapsto> VStr ''DB failed''],
          ''application/json'') \<and>
   map_sum Error call_body (Send_call lib0 ex_alert [] ''Service Down'' ''DB failed'') =
     Inr (Some ''{"alert":"Service Down","details":"DB failed"}'')\<close>
proof -
  have built: "buildPayload lib0 ex_alert ''Service Down'' ''DB failed'' =
      Inr (VMap [''alert'' \<mapsto> VStr ''Service Down'', ''details'' \<mapsto> VStr ''DB failed''],
           ''application/json'')"
    using custom_template_example [of ex_alert cp0 lib0 "[]"]
    by (simp add: ex_defs ex2_defs)
  have \<open>map_sum Error call_body (Send_call lib0 ex_alert [] ''Service Down'' ''DB failed'') =
      Inr (Some ''{"alert":"Service Down","details":"DB failed"}'')\<close>
    unfolding Send_call_def Send_def built
    by (simp add: ex_defs ex2_defs make_map_def range_copy_def sendWithRetry_def
        example_keys_def quoted_def Let_def)
  with built show ?thesis
    by simp
qed

section \<open>Retries\<close>

text \<open>
  Claim C3. Let \<open>c\<close> be the call \<open>Send\<close> makes, with the helper as the specification
  describes it. Its retry count is the configured one (none when that is not positive).
  If the endpoint answers 2xx at attempt \<open>k\<close>, within the retry count, after failing
  before, \<open>Send\<close> returns no error, having sent the same call \<open>k + 1\<close> times. If it answers
  outside 2xx at every attempt, \<open>Send\<close> returns a \<^verbatim>\<open>WebhookError\<close> with the status and the
  body of the last response and the retryability of its class, having sent the same call
  once and once more for each retry.
\<close>

theorem Send_retry_outcome:
  assumes "Send_call L w h title message = Inr c"
  shows "call_maxRetries c = (if Retries (config w) > 0 then Retries (config w) else 0) \<and>
         (\<forall>k\<le>nat (call_maxRetries c).
            (\<forall>i<k. \<not> is_2xx (respond E i c)) \<and> is_2xx (respond E k c) \<longrightarrow>
            fst (Send L (sendHTTPRequestWithCustomBody E) w h title message) =
              Inr (None, replicate (Suc k) c)) \<and>
         ((\<forall>i\<le>nat (call_maxRetries c). \<not> is_2xx (respond E i c)) \<longrightarrow>
            fst (Send L (sendHTTPRequestWithCustomBody E) w h title message) =
              Inr (Some \<lparr>StatusCode = resp_status (respond E (nat (call_maxRetries c)) c),
                         Body = resp_body (respond E (nat (call_maxRetries c)) c),
                         Retryable = retryable_class E
                           (resp_status (respond E (nat (call_maxRetries c)) c)),
                         Message = describe E (respond E (nat (call_maxRetries c)) c)\<rparr>,
                   replicate (Suc (nat (call_maxRetries c))) c))"
proof -
  let ?n = "nat (call_maxRetries c)"
  have run: "fst (Send L (sendHTTPRequestWithCustomBody E) w h title message) =
      Inr (attempt E c 0 ?n)"
    using assms
    by (simp add: Send_factor [of L "sendHTTPRequestWithCustomBody E"]
        sendHTTPRequestWithCustomBody_def)
  have "attempt E c 0 ?n = (None, replicate (Suc k) c)"
    if "k \<le> ?n" and "\<forall>i<k. \<not> is_2xx (respond E i c)" and "is_2xx (respond E k c)" for k
    using attempt_success [of k ?n E 0 c] that by simp
  moreover have "attempt E c 0 ?n =
      (Some (webhook_error E (respond E ?n c)), replicate (Suc ?n) c)"
    if "\<forall>i\<le>?n. \<not> is_2xx (respond E i c)"
    using attempt_exhausted [of ?n E 0 c] that by simp
  ultimately show ?thesis
    using run Send_call_maxRetries [OF assms]
    by (simp add: webhook_error_def)
qed

text \<open>
  Three retries against 503, 503, 200 succeed with three requests; three retries against a
  constant 500 fail after four; no retries against it fail after one.
\<close>

theorem Send_retry_outcome_witness:
  "fst (Send lib0 (sendHTTPRequestWithCustomBody flaky) ex_retries []
          ''Service Down'' ''DB failed'') =
     Inr (None, [retries_call, retries_call, retries_call]) \<and>
   fst (Send lib0 (sendHTTPRequestWithCustomBody broken) ex_retries []
          ''Service Down'' ''DB failed'') =
     Inr (Some \<lparr>StatusCode = 500, Body = ''Internal Server Error'', Retryable = True,
                Message = ''webhook request failed''\<rparr>,
          [retries_call, retries_call, retries_call, retries_call]) \<and>
   fst (Send lib0 (sendHTTPRequestWithCustomBody broken) ex_default []
          ''Service Down'' ''DB failed'') =
     Inr (Some \<lparr>StatusCode = 500, Body = ''Internal Server Error'', Retryable = True,
                Message = ''webhook request failed''\<rparr>,
          [default_call])"
proof -
  have three: "nat (call_maxRetries retries_call) = 3"
    and zero: "nat (call_maxRetries default_call) = 0"
    by (simp_all add: retries_call_def default_call_def)
  from Send_retry_outcome [OF Send_call_retries, of flaky]
  have "2 \<le> nat (call_maxRetries retries_call) \<longrightarrow>
      (\<forall>i<2. \<not> is_2xx (respond flaky i retries_call)) \<and>
      is_2xx (respond flaky 2 retries_call) \<longrightarrow>
      fst (Send lib0 (sendHTTPRequestWithCustomBody flaky) ex_retries []
            ''Service Down'' ''DB failed'') = Inr (None, replicate (Suc 2) retries_call)"
    by blast
  with three have "fst (Send lib0 (sendHTTPRequestWithCustomBody flaky) ex_retries []
          ''Service Down'' ''DB failed'') = Inr (None, replicate (Suc 2) retries_call)"
    by (simp add: flaky_def is_2xx_def)
  moreover have "fst (Send lib0 (sendHTTPRequestWithCustomBody broken) ex_retries []
          ''Service Down'' ''DB failed'') =
     Inr (Some \<lparr>StatusCode = 500, Body = ''Internal Server Error'', Retryable = True,
                Message = ''webhook request failed''\<rparr>, replicate (Suc 3) retries_call)"
    using Send_retry_outcome [OF Send_call_retries, of broken] three
    by (simp add: broken_def is_2xx_def)
  moreover have "fst (Send lib0 (sendHTTPRequestWithCustomBody broken) ex_default []
          ''Service Down'' ''DB failed'') =
     Inr (Some \<lparr>StatusCode = 500, Body = ''Internal Server Error'', Retryable = True,
                Message = ''webhook request failed''\<rparr>, replicate (Suc 0) default_call)"
    using Send_retry_outcome [OF Send_call_default, of broken] zero
    by (simp add: broken_def is_2xx_def)
  ultimately show ?thesis
    by (simp add: numeral_2_eq_2 numeral_3_eq_3)
qed

section \<open>The default body\<close>

text \<open>
  Claim C4, as amended. With no custom payload, no template and no format, the body of the
  call that \<open>Send\<close> makes is the JSON encoding of the object with the six keys \<^verbatim>\<open>title\<close>,
  \<^verbatim>\<open>message\<close>, \<^verbatim>\<open>Title\<close>, \<^verbatim>\<open>Message\<close>, \<^verbatim>\<open>timestamp\<close> (the clock in RFC3339 format) and
  \<^verbatim>\<open>service\<close> (with the value \<^verbatim>\<open>ponghub\<close>), and no other key; its content type is
  \<^verbatim>\<open>application/json\<close>.
\<close>

theorem default_body_keys:
  assumes "CustomPayload (config w) = None" and "Template (config w) = ''''"
    and "Format (config w) = ''''" and "Send_call L w h title message = Inr c"
  shows "\<exists>b. call_body c = Some b \<and> call_contentType c = ''application/json'' \<and>
           json_Marshal L (VMap [''title'' \<mapsto> VStr title, ''message'' \<mapsto> VStr message,
                                 ''Title'' \<mapsto> VStr title, ''Message'' \<mapsto> VStr message,
                                 ''timestamp'' \<mapsto> VStr (Now_RFC3339 L),
                                 ''service'' \<mapsto> VStr ''ponghub'']) = Inr b"
proof -
  from assms(1-3) have built: "buildPayload L w title message =
      Inr (VMap (payload_data L title message), ''application/json'')"
    by (rule buildPayload_default)
  from Send_call_object [OF assms(4) built] show ?thesis
    by (simp add: payload_data_def)
qed

theorem default_body_keys_witness:
  "call_contentType default_call = ''application/json'' \<and>
   json_Marshal lib0 (VMap [''title'' \<mapsto> VStr ''Service Down'',
                            ''message'' \<mapsto> VStr ''DB failed'',
                            ''Title'' \<mapsto> VStr ''Service Down'',
                            ''Message'' \<mapsto> VStr ''DB failed'',
                            ''timestamp'' \<mapsto> VStr (Now_RFC3339 lib0),
                            ''service'' \<mapsto> VStr ''ponghub'']) = Inr default_body"
proof -
  have none: "CustomPayload (config ex_default) = None" "Template (config ex_default) = ''''"
    "Format (config ex_default) = ''''"
    by (simp_all add: ex_defs)
  have "call_body default_call = Some default_body"
    by (simp add: default_call_def)
  with default_body_keys [OF none Send_call_default] show ?thesis
    by auto
qed

text \<open>
  The claim as it stands fails: the default payload is not the object of the four keys,
  it has \<^verbatim>\<open>Title\<close> and \<^verbatim>\<open>Message\<close> too, and so has the body sent.
\<close>

theorem default_body_keys_counterexample:
  "buildPayload lib0 ex_default ''Service Down'' ''DB failed'' =
     Inr (VMap (payload_data lib0 ''Service Down'' ''DB failed''), ''application/json'') \<and>
   payload_data lib0 ''Service Down'' ''DB failed'' \<noteq>
     [''title'' \<mapsto> VStr ''Service Down'', ''message'' \<mapsto> VStr ''DB failed'',
      ''timestamp'' \<mapsto> VStr (Now_RFC3339 lib0), ''service'' \<mapsto> VStr ''ponghub''] \<and>
   payload_data lib0 ''Service Down'' ''DB failed'' ''Title'' = Some (VStr ''Service Down'') \<and>
   payload_data lib0 ''Service Down'' ''DB failed'' ''Message'' = Some (VStr ''DB failed'') \<and>
   map_sum Error call_body (Send_call lib0 ex_default [] ''Service Down'' ''DB failed'') =
     Inr (Some default_body)"
proof -
  have "payload_data lib0 ''Service Down'' ''DB failed'' ''Title'' \<noteq>
     [''title'' \<mapsto> VStr ''Service Down'', ''message'' \<mapsto> VStr ''DB failed'',
      ''timestamp'' \<mapsto> VStr (Now_RFC3339 lib0), ''service'' \<mapsto> VStr ''ponghub''] ''Title''"
    by (simp add: payload_data_def)
  then have "payload_data lib0 ''Service Down'' ''DB failed'' \<noteq>
     [''title'' \<mapsto> VStr ''Service Down'', ''message'' \<mapsto> VStr ''DB failed'',
      ''timestamp'' \<mapsto> VStr (Now_RFC3339 lib0), ''service'' \<mapsto> VStr ''ponghub'']"
    by metis
  moreover have "buildPayload lib0 ex_default ''Service Down'' ''DB failed'' =
     Inr (VMap (payload_data lib0 ''Service Down'' ''DB failed''), ''application/json'')"
    by (simp add: buildPayload_def ex_defs)
  moreover have "payload_data lib0 ''Service Down'' ''DB failed'' ''Title'' =
      Some (VStr ''Service Down'')"
    and "payload_data lib0 ''Service Down'' ''DB failed'' ''Message'' = Some (VStr ''DB failed'')"
    by (simp_all add: payload_data_def)
  moreover have "map_sum Error call_body
      (Send_call lib0 ex_default [] ''Service Down'' ''DB failed'') = Inr (Some default_body)"
    by (simp add: Send_call_default default_call_def)
  ultimately show ?thesis
    by blast
qed

section \<open>Bearer authentication\<close>

text \<open>
  Claim C5. For every configuration whose authentication type is \<^verbatim>\<open>bearer\<close> (it is not
  empty and its lower-case form is \<^verbatim>\<open>bearer\<close>) and whose token \<open>T\<close> is not empty: \<open>Send\<close>
  makes its call whenever there is a URL, the payload is built and it can be encoded, the
  helper receives that call, and the call carries the header \<^verbatim>\<open>Authorization\<close> with the
  value \<^verbatim>\<open>Bearer T\<close>, whatever the configured headers say. No call that \<open>Send\<close> makes is
  without it.
\<close>

theorem bearer_authorization_header:
  assumes "AuthType (config w) \<noteq> ''''" and "ToLower L (AuthType (config w)) = ''bearer''"
    and "AuthToken (config w) \<noteq> ''''"
  shows "(\<forall>c. Send_call L w h title message = Inr c \<longrightarrow>
            call_headers c ''Authorization'' = Some (''Bearer '' @ AuthToken (config w))) \<and>
         ((if URL (config w) = '''' then Getenv L ''WEBHOOK_URL'' else URL (config w)) \<noteq> '''' \<and>
          buildPayload L w title message = Inr (payload, ct) \<and>
          (payload = VNil \<or> (\<exists>v. payload = VStr v) \<or>
           (\<exists>b. json_Marshal L payload = Inr b)) \<longrightarrow>
          (\<exists>c. Send_call L w h title message = Inr c \<and>
               fst (Send L H w h title message) = Inr (H c) \<and>
               call_headers c ''Authorization'' =
                 Some (''Bearer '' @ AuthToken (config w))))"
proof -
  let ?h2 = "range_copy (Headers (config w)) (length h) (h @ [Map.empty])"
  have header: "call_headers c ''Authorization'' = Some (''Bearer '' @ AuthToken (config w))"
    if "Send_call L w h title message = Inr c" for c
  proof -
    from that have "call_headers c =
        (if AuthType (config w) \<noteq> '''' then setAuthentication L w (length h) ?h2 else ?h2)
          ! length h"
      by (rule Send_call_headers)
    with assms have "call_headers c =
        map_assign (length h) ''Authorization'' (''Bearer '' @ AuthToken (config w)) ?h2
          ! length h"
      by (simp add: setAuthentication_bearer)
    then show ?thesis
      by (simp add: nth_map_assign_same)
  qed
  have "\<exists>c. Send_call L w h title message = Inr c \<and>
          fst (Send L H w h title message) = Inr (H c) \<and>
          call_headers c ''Authorization'' = Some (''Bearer '' @ AuthToken (config w))"
    if "(if URL (config w) = '''' then Getenv L ''WEBHOOK_URL'' else URL (config w)) \<noteq> ''''"
      and "buildPayload L w title message = Inr (payload, ct)"
      and "payload = VNil \<or> (\<exists>v. payload = VStr v) \<or> (\<exists>b. json_Marshal L payload = Inr b)"
  proof -
    from that obtain c where "Send_call L w h title message = Inr c"
      using Send_call_issues by blast
    with header [of c] Send_issues [of L w h title message c H] show ?thesis
      by blast
  qed
  with header show ?thesis
    by blast
qed

text \<open>
  With a configured \<^verbatim>\<open>Authorization\<close> header of another value and the token
  \<^verbatim>\<open>test-token-123\<close>, what the helper finds under \<^verbatim>\<open>Authorization\<close> in the call of \<open>Send\<close>.
\<close>

theorem bearer_authorization_header_witness:
  "AuthType (config ex_bearer) = ''bearer'' \<and>
   fst (Send lib0 (\<lambda>c. call_headers c ''Authorization'') ex_bearer heap0
          ''Service Down'' ''DB failed'') = Inr (Some ''Bearer test-token-123'') \<and>
   Send_call lib0 ex_bearer heap0 ''Service Down'' ''DB failed'' = Inr bearer_call"
proof -
  have auth: "AuthType (config ex_bearer) \<noteq> ''''"
    "ToLower lib0 (AuthType (config ex_bearer)) = ''bearer''"
    "AuthToken (config ex_bearer) \<noteq> ''''"
    "AuthToken (config ex_bearer) = ''test-token-123''"
    "AuthType (config ex_bearer) = ''bearer''"
    by (simp_all add: ex_defs ex3_defs ascii_lower_def is_upper_def)
  have url: "(if URL (config ex_bearer) = '''' then Getenv lib0 ''WEBHOOK_URL''
              else URL (config ex_bearer)) \<noteq> ''''"
    by (simp add: ex_defs ex3_defs)
  have built: "buildPayload lib0 ex_bearer ''Service Down'' ''DB failed'' =
      Inr (VMap (payload_data lib0 ''Service Down'' ''DB failed''), ''application/json'')"
    by (simp add: buildPayload_def ex_defs ex3_defs)
  have enc: "json_Marshal lib0 (VMap (payload_data lib0 ''Service Down'' ''DB failed'')) =
      Inr default_body"
    by (simp add: lib0_def payload_data_def example_keys_def quoted_def default_body_def)
  from bearer_authorization_header [OF auth(1-3),
      of heap0 "''Service Down''" "''DB failed''"
         "VMap (payload_data lib0 ''Service Down'' ''DB failed'')" "''application/json''"
         "\<lambda>c. call_headers c ''Authorization''"]
    url built enc auth(4)
  have "fst (Send lib0 (\<lambda>c. call_headers c ''Authorization'') ex_bearer heap0
          ''Service Down'' ''DB failed'') = Inr (Some ''Bearer test-token-123'')"
    by auto
  with auth(5) Send_call_bearer show ?thesis
    by simp
qed


section \<open>Extra fields of a custom payload\<close>

text \<open>
  Claim C6, as amended. Let a custom payload declare the field \<open>k\<close> with the value \<open>v\<close>,
  and let neither the title mapping nor the message mapping write to \<open>k\<close>. Then \<open>k\<close> with
  \<open>v\<close> is in the data the payload is built from. Without a custom template that data is
  the payload: its JSON encoding is the body of every call \<open>Send\<close> makes, and \<open>Send\<close> makes
  the call, and hands it to the helper, whenever there is a URL and the data can be
  encoded. With a custom template that does not mention both \<^verbatim>\<open>"alert"\<close> and
  \<^verbatim>\<open>"details"\<close>, the payload is the rendering of the template on that data, so that the
  field is there for the template to use and is in the payload where the template puts
  it. Of a custom template that mentions both, nothing is said here.
\<close>

theorem custom_fields_merge:
  assumes "CustomPayload (config w) = Some cp" and "Fields cp = Some fs" and "fs k = Some v"
    and "\<not> (TitleField cp = k \<and> IncludeTitle cp)"
    and "\<not> (MessageField cp = k \<and> IncludeMessage cp)"
  shows \<open>enhance cp (payload_data L title message) k = Some (VStr v) \<and>
         (PayloadTemplate cp = '''' \<longrightarrow>
            buildPayload L w title message =
              Inr (VMap (enhance cp (payload_data L title message)),
                   if PayloadContentType cp \<noteq> '''' then PayloadContentType cp
                   else ''application/json'') \<and>
            (\<forall>c. Send_call L w h title message = Inr c \<longrightarrow>
               (\<exists>b. call_body c = Some b \<and>
                    json_Marshal L (VMap (enhance cp (payload_data L title message))) = Inr b)) \<and>
            ((if URL (config w) = '''' then Getenv L ''WEBHOOK_URL'' else URL (config w)) \<noteq> '''' \<and>
             (\<exists>b. json_Marshal L (VMap (enhance cp (payload_data L title message))) = Inr b) \<longrightarrow>
               (\<exists>c b. Send_call L w h title message = Inr c \<and>
                      fst (Send L H w h title message) = Inr (H c) \<and>
                      call_body c = Some b \<and>
                      json_Marshal L (VMap (enhance cp (payload_data L title message))) =
                        Inr b))) \<and>
         (PayloadTemplate cp \<noteq> '''' \<and>
          \<not> (Contains (PayloadTemplate cp) ''"alert"'' \<and>
             Contains (PayloadTemplate cp) ''"details"'') \<longrightarrow>
            buildPayload L w title message =
              buildTemplatePayloadWithData L (PayloadTemplate cp)
                (enhance cp (payload_data L title message)) (PayloadContentType cp))\<close>
proof -
  let ?e = "enhance cp (payload_data L title message)"
  let ?ct = "if PayloadContentType cp \<noteq> '''' then PayloadContentType cp
             else ''application/json''"
  have field: "?e k = Some (VStr v)"
    using assms(2-5) by (rule enhance_field)
  have plain: "buildPayload L w title message = Inr (VMap ?e, ?ct)"
    if "PayloadTemplate cp = ''''"
    using that assms(1) by (simp add: buildPayload_custom buildCustomPayload_def)
  have body: "\<exists>b. call_body c = Some b \<and> json_Marshal L (VMap ?e) = Inr b"
    if "PayloadTemplate cp = ''''" and "Send_call L w h title message = Inr c" for c
    using Send_call_object(1) [OF that(2) plain [OF that(1)]] .
  have sends: "\<exists>c b. Send_call L w h title message = Inr c \<and>
      fst (Send L H w h title message) = Inr (H c) \<and> call_body c = Some b \<and>
      json_Marshal L (VMap ?e) = Inr b"
    if none: "PayloadTemplate cp = ''''"
      and url: "(if URL (config w) = '''' then Getenv L ''WEBHOOK_URL''
                 else URL (config w)) \<noteq> ''''"
      and enc: "\<exists>b. json_Marshal L (VMap ?e) = Inr b"
  proof -
    from enc have "VMap ?e = VNil \<or> (\<exists>s. VMap ?e = VStr s) \<or>
        (\<exists>b. json_Marshal L (VMap ?e) = Inr b)"
      by blast
    with url plain [OF none] obtain c where c: "Send_call L w h title message = Inr c"
      using Send_call_issues by blast
    with body [OF none c] Send_issues [OF c, of H] show ?thesis
      by blast
  qed
  have engine: "buildPayload L w title message =
      buildTemplatePayloadWithData L (PayloadTemplate cp) ?e (PayloadContentType cp)"
    if "PayloadTemplate cp \<noteq> ''''"
      and \<open>\<not> (Contains (PayloadTemplate cp) ''"alert"'' \<and>
              Contains (PayloadTemplate cp) ''"details"'')\<close>
    using that assms(1) by (auto simp: buildPayload_custom buildCustomPayload_def Let_def)
  from field plain body sends engine show ?thesis
    by blast
qed

text \<open>
  The field \<^verbatim>\<open>region\<close> without a template, in the body the helper receives, and with a
  template that makes no use of it.
\<close>

theorem custom_fields_merge_witness:
  "fst (Send lib0 call_body ex_region_no_template [] ''Service Down'' ''DB failed'') =
     Inr (Some region_body) \<and>
   buildPayload lib0 ex_region_text ''Service Down'' ''DB failed'' =
     Inr (VStr ''custom down'', ''text/plain'')"
proof -
  let ?cp1 = "cp0\<lparr>PayloadTemplate := '''', Fields := Some [''region'' \<mapsto> ''eu'']\<rparr>"
  let ?cp2 = "cp0\<lparr>PayloadTemplate := ''custom down'', Fields := Some [''region'' \<mapsto> ''eu'']\<rparr>"
  let ?fs = "[''region'' \<mapsto> ''eu'']"
  have enc: "json_Marshal lib0
      (VMap ((payload_data lib0 ''Service Down'' ''DB failed'')(''region'' \<mapsto> VStr ''eu''))) =
      Inr region_body"
    by (simp add: lib0_def payload_data_def example_keys_def quoted_def region_body_def)
  have one: "CustomPayload (config ex_region_no_template) = Some ?cp1"
    "Fields ?cp1 = Some ?fs" "?fs ''region'' = Some ''eu''"
    "\<not> (TitleField ?cp1 = ''region'' \<and> IncludeTitle ?cp1)"
    "\<not> (MessageField ?cp1 = ''region'' \<and> IncludeMessage ?cp1)"
    "PayloadTemplate ?cp1 = ''''"
    "(if URL (config ex_region_no_template) = '''' then Getenv lib0 ''WEBHOOK_URL''
      else URL (config ex_region_no_template)) \<noteq> ''''"
    by (simp_all add: ex_region_no_template_def NewWebhookNotifier_def cfg0_def cp0_def)
  from custom_fields_merge [OF one(1-5),
      of lib0 "''Service Down''" "''DB failed''" "[]" call_body] one(6,7) enc
  have "fst (Send lib0 call_body ex_region_no_template [] ''Service Down'' ''DB failed'') =
      Inr (Some region_body)"
    by (auto simp: enhance_region_no_template)
  moreover have two: "CustomPayload (config ex_region_text) = Some ?cp2"
    "Fields ?cp2 = Some ?fs"
    "\<not> (TitleField ?cp2 = ''region'' \<and> IncludeTitle ?cp2)"
    "\<not> (MessageField ?cp2 = ''region'' \<and> IncludeMessage ?cp2)"
    by (simp_all add: ex_region_text_def NewWebhookNotifier_def cfg0_def cp0_def)
  from custom_fields_merge [OF two(1,2) one(3) two(3,4),
      of lib0 "''Service Down''" "''DB failed''" "[]" call_body]
  have "buildPayload lib0 ex_region_text ''Service Down'' ''DB failed'' =
      Inr (VStr ''custom down'', ''text/plain'')"
    by (simp add: buildTemplatePayloadWithData_def lib0_def cp0_def)
  ultimately show ?thesis
    by simp
qed

text \<open>
  The claim as it stands fails with a custom template: with the template of the
  specification the declared field \<^verbatim>\<open>region\<close> is in neither the payload nor the body, and
  with a template of plain text the payload and the body are that text.
\<close>

theorem custom_fields_merge_counterexample:
  \<open>CustomPayload (config ex_region) = Some (cp0\<lparr>Fields := Some [''region'' \<mapsto> ''eu'']\<rparr>) \<and>
   buildPayload lib0 ex_region ''Service Down'' ''DB failed'' =
     Inr (VMap [''alert'' \<mapsto> VStr ''Service Down'', ''details'' \<mapsto> VStr ''DB failed''],
          ''application/json'') \<and>
   [''alert'' \<mapsto> VStr ''Service Down'', ''details'' \<mapsto> VStr ''DB failed''] ''region'' = None \<and>
   map_sum Error call_body (Send_call lib0 ex_region [] ''Service Down'' ''DB failed'') =
     Inr (Some ''{"alert":"Service Down","details":"DB failed"}'') \<and>
   CustomPayload (config ex_region_text) =
     Some (cp0\<lparr>PayloadTemplate := ''custom down'', Fields := Some [''region'' \<mapsto> ''eu'']\<rparr>) \<and>
   buildPayload lib0 ex_region_text ''Service Down'' ''DB failed'' =
     Inr (VStr ''custom down'', ''text/plain'') \<and>
   map_sum Error call_body (Send_call lib0 ex_region_text [] ''Service Down'' ''DB failed'') =
     Inr (Some ''custom down'')\<close>
proof -
  have cp: "CustomPayload (config ex_region) =
      Some (cp0\<lparr>Fields := Some [''region'' \<mapsto> ''eu'']\<rparr>)"
    by (simp add: ex_region_def NewWebhookNotifier_def cfg0_def)
  have tmpl: "PayloadTemplate (cp0\<lparr>Fields := Some [''region'' \<mapsto> ''eu'']\<rparr>) = alert_template"
    "PayloadContentType (cp0\<lparr>Fields := Some [''region'' \<mapsto> ''eu'']\<rparr>) = ''''"
    "alert_template \<noteq> ''''"
    by (simp_all add: cp0_def alert_template_def)
  have built: "buildPayload lib0 ex_region ''Service Down'' ''DB failed'' =
      Inr (VMap [''alert'' \<mapsto> VStr ''Service Down'', ''details'' \<mapsto> VStr ''DB failed''],
           ''application/json'')"
    by (simp add: buildPayload_custom [OF cp] buildCustomPayload_def cp tmpl
        Contains_alert_template enhance_region structured_result_region)
  have sent: \<open>map_sum Error call_body
      (Send_call lib0 ex_region [] ''Service Down'' ''DB failed'') =
      Inr (Some ''{"alert":"Service Down","details":"DB failed"}'')\<close>
    unfolding Send_call_def Send_def built
    by (simp add: ex_defs ex2_defs make_map_def range_copy_def sendWithRetry_def
        example_keys_def quoted_def Let_def)
  have cp_text: "CustomPayload (config ex_region_text) =
      Some (cp0\<lparr>PayloadTemplate := ''custom down'', Fields := Some [''region'' \<mapsto> ''eu'']\<rparr>)"
    by (simp add: ex_region_text_def NewWebhookNotifier_def cfg0_def)
  have built_text: "buildPayload lib0 ex_region_text ''Service Down'' ''DB failed'' =
      Inr (VStr ''custom down'', ''text/plain'')"
    by (simp add: buildPayload_custom [OF cp_text] buildCustomPayload_def cp_text cp0_def
        buildTemplatePayloadWithData_def lib0_def)
  have sent_text: "map_sum Error call_body
      (Send_call lib0 ex_region_text [] ''Service Down'' ''DB failed'') =
      Inr (Some ''custom down'')"
    unfolding Send_call_def Send_def built_text
    by (simp add: ex_defs ex_region_text_def make_map_def range_copy_def sendWithRetry_def
        Let_def)
  from cp built sent cp_text built_text sent_text show ?thesis
    by simp
qed


section \<open>The HTTP method\<close>

text \<open>
  Claim C7, as amended. The method of the call that \<open>Send\<close> makes is the configured method
  converted to upper case when one is set, and \<^verbatim>\<open>POST\<close> when the configured method is the
  empty string.
\<close>

theorem method_upper_or_post:
  assumes "Send_call L w h title message = Inr c"
  shows "call_method c =
           (if Method (config w) = '''' then ''POST'' else ToUpper L (Method (config w)))"
  using Send_call_method [OF assms] by simp

theorem method_upper_or_post_witness:
  "call_method (default_call\<lparr>call_method := ''GET''\<rparr>) = ToUpper lib0 ''get'' \<and>
   call_method default_call = ''POST''"
  using method_upper_or_post [OF Send_call_get] method_upper_or_post [OF Send_call_default]
  by (simp add: ex_defs ex3_defs)

text \<open>
  The claim as it stands fails: the configured method \<^verbatim>\<open>get\<close> is sent as \<^verbatim>\<open>GET\<close>, which
  is another string.
\<close>

theorem method_counterexample:
  "Method (config ex_get) = ''get'' \<and>
   map_sum Error call_method (Send_call lib0 ex_get [] ''Service Down'' ''DB failed'') =
     Inr ''GET'' \<and>
   map_sum Error call_method (Send_call lib0 ex_get [] ''Service Down'' ''DB failed'') \<noteq>
     Inr (Method (config ex_get))"
  by (simp add: Send_call_get) (simp add: ex_defs ex3_defs)

section \<open>The configuration is left alone\<close>

text \<open>
  Claim C8. \<open>Send\<close> does not change the configuration: after every call, whatever the
  helper and also when an authentication header is set, the notifier is the one given,
  every map that was in the store is what it was, the headers map of the configuration
  among them; the only map \<open>Send\<close> writes to is the one it makes.
\<close>

theorem Send_frame:
  assumes "wf_heap w h" and "Send L H w h title message = (r, w', h')"
  shows "w' = w \<and> length h \<le> length h' \<and> (\<forall>a<length h. h' ! a = h ! a) \<and>
         (\<forall>a. Headers (config w') = Some a \<longrightarrow> h' ! a = h ! a)"
proof -
  let ?new = "if AuthType (config w) \<noteq> ''''
       then setAuthentication L w (length h)
              (range_copy (Headers (config w)) (length h) (h @ [Map.empty]))
       else range_copy (Headers (config w)) (length h) (h @ [Map.empty])"
  from assms(2) Send_state [of L H w h title message]
  have w: "w' = w" and h': "h' = h \<or> h' = ?new"
    by simp_all
  have len: "length ?new = Suc (length h)"
    by simp
  have old: "?new ! a = h ! a" if "a < length h" for a
    using that
    by (simp add: nth_setAuthentication_other nth_range_copy_other nth_append)
  from h' len have "length h \<le> length h'"
    by auto
  moreover from h' old have keep: "\<forall>a<length h. h' ! a = h ! a"
    by auto
  moreover have "h' ! a = h ! a" if "Headers (config w') = Some a" for a
  proof -
    from that w assms(1) have "a < length h"
      by (simp add: wf_heap_def)
    with keep show ?thesis
      by simp
  qed
  ultimately show ?thesis
    using w by blast
qed

text \<open>
  With bearer authentication and a configured \<^verbatim>\<open>Authorization\<close> header, the call carries
  the bearer token and the configured map keeps its own value.
\<close>

theorem Send_frame_witness:
  "wf_heap ex_bearer heap0 \<and>
   snd (Send lib0 (\<lambda>c. c) ex_bearer heap0 ''Service Down'' ''DB failed'') =
     (ex_bearer, heap0 @ [call_headers bearer_call]) \<and>
   (heap0 @ [call_headers bearer_call]) ! 0 = heap0 ! 0 \<and>
   (heap0 ! 0) ''Authorization'' = Some ''none''"
proof -
  have wf: "wf_heap ex_bearer heap0"
    by (simp add: wf_heap_def ex_defs ex3_defs)
  from Send_frame [OF wf Send_bearer] wf Send_bearer show ?thesis
    by (simp add: heap0_def)
qed

section \<open>The URL\<close>

text \<open>
  Claim C9. When the configured URL is empty, \<open>Send\<close> uses the value of \<^verbatim>\<open>WEBHOOK_URL\<close>
  from the environment: the call it makes goes there, and a non-empty value keeps the
  URL error away. When that value is empty too, \<open>Send\<close> returns the error
  \<^verbatim>\<open>webhook URL not configured\<close>, for every library and helper: it does not depend on
  what building the payload would give, the helper is not applied, and the store is
  the one given.
\<close>

theorem url_fallback:
  "URL (config w) = '''' \<longrightarrow>
     (Getenv L ''WEBHOOK_URL'' = '''' \<longrightarrow>
        Send L H w h title message = (Inl (Errorf ''webhook URL not configured''), w, h)) \<and>
     (Getenv L ''WEBHOOK_URL'' \<noteq> '''' \<longrightarrow>
        fst (Send L H w h title message) \<noteq> Inl (Errorf ''webhook URL not configured'')) \<and>
     (\<forall>c. Send_call L w h title message = Inr c \<longrightarrow> call_url c = Getenv L ''WEBHOOK_URL'')"
proof (intro impI conjI allI)
  assume "URL (config w) = ''''" and "Getenv L ''WEBHOOK_URL'' = ''''"
  then show "Send L H w h title message = (Inl (Errorf ''webhook URL not configured''), w, h)"
    by (simp add: Send_def)
next
  assume "URL (config w) = ''''" and "Getenv L ''WEBHOOK_URL'' \<noteq> ''''"
  then show "fst (Send L H w h title message) \<noteq> Inl (Errorf ''webhook URL not configured'')"
    by (auto simp: Send_def Let_def sendWithRetry_def make_map_def
        split: sum.splits go_error.splits prod.splits any.splits)
next
  fix c
  assume "URL (config w) = ''''" and "Send_call L w h title message = Inr c"
  then show "call_url c = Getenv L ''WEBHOOK_URL''"
    by (simp add: Send_call_url)
qed

theorem url_fallback_witness:
  "Send lib0 (\<lambda>c. c) ex_no_url [] ''Service Down'' ''DB failed'' =
     (Inl (Errorf ''webhook URL not configured''), ex_no_url, []) \<and>
   Send_call lib_env ex_no_url [] ''Service Down'' ''DB failed'' = Inr env_call \<and>
   call_url env_call = Getenv lib_env ''WEBHOOK_URL''"
  using url_fallback [of ex_no_url lib0 "\<lambda>c. c" "[]" "''Service Down''" "''DB failed''"]
    url_fallback [of ex_no_url lib_env "\<lambda>c. c" "[]" "''Service Down''" "''DB failed''"]
    Send_call_env
  by (simp add: ex_defs ex3_defs)

section \<open>The content type of a raw template\<close>

text \<open>
  Claim C10. For a raw template that parses and renders to a text: when the text is not
  valid JSON, \<open>buildTemplatePayload\<close> returns it as a string, with the content type
  \<^verbatim>\<open>text/plain\<close> unless one is configured, which is then used; when the text parses as
  JSON, it returns the parsed value with the content type \<^verbatim>\<open>application/json\<close>.
\<close>

theorem buildTemplatePayload_content_type:
  assumes "template_Parse L (Template (config w)) = None"
    and "template_Execute L (Template (config w)) data = Inr text"
  shows "(json_Unmarshal L text = None \<longrightarrow>
            buildTemplatePayload L w data =
              Inr (VStr text, if ContentType (config w) = '''' then ''text/plain''
                              else ContentType (config w))) \<and>
         (\<forall>v. json_Unmarshal L text = Some v \<longrightarrow>
            buildTemplatePayload L w data = Inr (v, ''application/json''))"
  using assms by (simp add: buildTemplatePayload_def)

theorem buildTemplatePayload_content_type_witness:
  "buildTemplatePayload lib0 ex_raw_text (payload_data lib0 ''Service Down'' ''DB failed'') =
     Inr (VStr ''service is down'', ''text/plain'') \<and>
   buildTemplatePayload lib0 ex_raw_text_typed
       (payload_data lib0 ''Service Down'' ''DB failed'') =
     Inr (VStr ''service is down'', ''text/markdown'') \<and>
   buildTemplatePayload lib0 ex_raw_json (payload_data lib0 ''Service Down'' ''DB failed'') =
     Inr (VBool True, ''application/json'')"
  using buildTemplatePayload_content_type [of lib0 ex_raw_text
          "payload_data lib0 ''Service Down'' ''DB failed''" "''service is down''"]
        buildTemplatePayload_content_type [of lib0 ex_raw_text_typed
          "payload_data lib0 ''Service Down'' ''DB failed''" "''service is down''"]
        buildTemplatePayload_content_type [of lib0 ex_raw_json
          "payload_data lib0 ''Service Down'' ''DB failed''" "''true''"]
  by (simp add: ex_defs ex2_defs)

end
